theory Spec2Isabelle
  imports Main
begin

section \<open>Python values and their text\<close>

text \<open>
  The exceptions the modelled code can raise. A function that may raise returns
  \<open>exn + 'a\<close>, with \<open>Inl\<close> for the exception.
\<close>

datatype exn = AttributeError | TypeError | ValueError | KeyError | IndexError

text \<open>
  The values that are stored in value maps, conditions, rows and models: \<open>None\<close>,
  unbounded integers, strings, tuples and lists. A string is a list of code points
  below 256. Floating point values are left out.
\<close>

datatype pyval = PNone | PInt int | PStr string | PTuple "pyval list" | PList "pyval list"

definition digit_char :: "nat \<Rightarrow> char" where
  "digit_char d = ''0123456789abcdef'' ! d"

text \<open>The decimal digits of a natural number, most significant first.\<close>

function str_nat :: "nat \<Rightarrow> string" where
  "str_nat n = (if n < 10 then [digit_char n] else str_nat (n div 10) @ [digit_char (n mod 10)])"
  by pat_completeness auto
termination
  by (relation "measure id") auto

declare str_nat.simps [simp del]

definition str_int :: "int \<Rightarrow> string" where
  "str_int i = (if i < 0 then CHR ''-'' # str_nat (nat (- i)) else str_nat (nat i))"

text \<open>\<open>sep.join(xs)\<close> for a list of strings.\<close>

fun str_join :: "string \<Rightarrow> string list \<Rightarrow> string" where
  "str_join sep [] = []"
| "str_join sep [x] = x"
| "str_join sep (x # y # ys) = x @ sep @ str_join sep (y # ys)"

text \<open>
  \<open>repr\<close> of a string: single quotes, unless the string holds a single quote and no
  double quote; the quote and the backslash are escaped, tab, newline and carriage
  return are written \<open>\t\<close>, \<open>\n\<close>, \<open>\r\<close>, and any other code point that is not
  printable is written \<open>\xhh\<close>.
\<close>

definition is_printable :: "char \<Rightarrow> bool" where
  "is_printable c =
     (let n = (of_char c :: nat) in (32 \<le> n \<and> n < 127) \<or> (161 \<le> n \<and> n \<noteq> 173))"

definition repr_char :: "char \<Rightarrow> char \<Rightarrow> string" where
  "repr_char quote c =
     (if c = quote \<or> c = CHR 0x5C then [CHR 0x5C, c]
      else if c = CHR 0x09 then [CHR 0x5C, CHR ''t'']
      else if c = CHR 0x0A then [CHR 0x5C, CHR ''n'']
      else if c = CHR 0x0D then [CHR 0x5C, CHR ''r'']
      else if is_printable c then [c]
      else [CHR 0x5C, CHR ''x'', digit_char (of_char c div 16), digit_char (of_char c mod 16)])"

definition repr_str :: "string \<Rightarrow> string" where
  "repr_str s =
     (let quote = (if CHR 0x27 \<in> set s \<and> CHR 0x22 \<notin> set s then CHR 0x22 else CHR 0x27)
      in quote # concat (map (repr_char quote) s) @ [quote])"

fun py_repr :: "pyval \<Rightarrow> string" where
  "py_repr PNone = ''None''"
| "py_repr (PInt i) = str_int i"
| "py_repr (PStr s) = repr_str s"
| "py_repr (PTuple xs) =
     ''('' @ str_join '', '' (map py_repr xs) @ (if length xs = 1 then '','' else []) @ '')''"
| "py_repr (PList xs) = ''['' @ str_join '', '' (map py_repr xs) @ '']''"

text \<open>\<open>str(v)\<close>, which is also what \<open>'%s' % v\<close> writes.\<close>

fun py_str :: "pyval \<Rightarrow> string" where
  "py_str (PStr s) = s"
| "py_str v = py_repr v"

section \<open>Conditions and condition groups\<close>

text \<open>
  \<open>_Condition._Type\<close>. In the source every member but the last is written with a
  trailing comma, \<open>EQUALS = '=',\<close>, so its value is the one-element tuple
  \<open>('=',)\<close>; only \<open>LESS_THAN_EQUALS = '<='\<close> has a string for its value.
\<close>

datatype cond_type =
  EQUALS | NOT_EQUALS | GREATER_THAN | GREATER_THAN_EQUALS | LESS_THAN | LESS_THAN_EQUALS

fun cond_type_value :: "cond_type \<Rightarrow> pyval" where
  "cond_type_value EQUALS = PTuple [PStr ''='']"
| "cond_type_value NOT_EQUALS = PTuple [PStr ''!='']"
| "cond_type_value GREATER_THAN = PTuple [PStr ''>'']"
| "cond_type_value GREATER_THAN_EQUALS = PTuple [PStr ''>='']"
| "cond_type_value LESS_THAN = PTuple [PStr ''<'']"
| "cond_type_value LESS_THAN_EQUALS = PStr ''<=''"

text \<open>
  \<open>_ConditionGroup._Type\<close>: \<open>AND = " AND ",\<close> is again a one-element tuple,
  \<open>OR = " OR "\<close> a string.
\<close>

datatype group_type = AND | OR

fun group_type_value :: "group_type \<Rightarrow> pyval" where
  "group_type_value AND = PTuple [PStr '' AND '']"
| "group_type_value OR = PStr '' OR ''"

text \<open>
  A condition tree. A \<open>_Condition\<close> has its \<open>_column_name\<close> (\<open>None\<close> when unset),
  its \<open>_type\<close> (the class default is \<open>EQUALS\<close>; the constructor never changes it)
  and its \<open>_value\<close>. A \<open>_ConditionGroup\<close> is a list subclass: it has its \<open>_type\<close>
  (default \<open>AND\<close>), its attribute \<open>_conditions\<close> (default \<open>[]\<close>) and the items of
  the list itself, which the constructor inherited from \<open>list\<close> fills.
\<close>

datatype where_node =
    Condition "string option" cond_type pyval
  | ConditionGroup group_type "where_node list" "where_node list"


text \<open>\<open>_Condition.__str__\<close>.\<close>

definition condition_str :: "string option \<Rightarrow> cond_type \<Rightarrow> pyval \<Rightarrow> string" where
  "condition_str column_name t v =
     (case column_name of
        None \<Rightarrow> []
      | Some c \<Rightarrow>
          if v \<noteq> PNone then c @ '' '' @ py_str (cond_type_value t) @ '' '' @ py_str v
          else [])"

text \<open>
  \<open>recv.join(conditions)\<close>, as \<open>_ConditionGroup.__str__\<close> calls it: only a string
  has a \<open>join\<close> method, and \<open>str.join\<close> accepts only strings as items, which a
  \<open>_Condition\<close> or a \<open>_ConditionGroup\<close> is not.
\<close>

definition join_conditions :: "pyval \<Rightarrow> where_node list \<Rightarrow> exn + string" where
  "join_conditions recv conditions =
     (case recv of
        PStr sep \<Rightarrow> (case conditions of [] \<Rightarrow> Inr [] | c # cs \<Rightarrow> Inl TypeError)
      | _ \<Rightarrow> Inl AttributeError)"

text \<open>\<open>str(w)\<close> for a condition tree \<open>w\<close>.\<close>

fun where_str :: "where_node \<Rightarrow> exn + string" where
  "where_str (Condition column_name t v) = Inr (condition_str column_name t v)"
| "where_str (ConditionGroup t conditions items) =
     (case join_conditions (group_type_value t) conditions of
        Inl e \<Rightarrow> Inl e
      | Inr s \<Rightarrow> Inr (''('' @ s @ '')''))"

section \<open>Templates\<close>

text \<open>
  \<open>string.Template(t).substitute(m)\<close>: \<open>$$\<close> is a dollar sign, \<open>$name\<close> and
  \<open>${name}\<close> are replaced by \<open>m[name]\<close> (a \<open>KeyError\<close> when it is missing), any
  other use of \<open>$\<close> is a \<open>ValueError\<close>. A name is a letter or an underscore followed
  by letters, digits and underscores.
\<close>

definition is_id_start :: "char \<Rightarrow> bool" where
  "is_id_start c = (c \<in> set ''_abcdefghijklmnopqrstuvwxyzABCDEFGHIJKLMNOPQRSTUVWXYZ'')"

definition is_id_char :: "char \<Rightarrow> bool" where
  "is_id_char c = (is_id_start c \<or> c \<in> set ''0123456789'')"

definition is_identifier :: "string \<Rightarrow> bool" where
  "is_identifier name = (case name of [] \<Rightarrow> False | c # cs \<Rightarrow> is_id_start c)"

definition lookup :: "(string \<rightharpoonup> string) \<Rightarrow> string \<Rightarrow> exn + string" where
  "lookup m k = (case m k of None \<Rightarrow> Inl KeyError | Some v \<Rightarrow> Inr v)"

text \<open>The text of two parts, or the first exception, from left to right.\<close>

definition cat :: "exn + string \<Rightarrow> exn + string \<Rightarrow> exn + string" where
  "cat a b =
     (case a of
        Inl e \<Rightarrow> Inl e
      | Inr s \<Rightarrow> (case b of Inl e \<Rightarrow> Inl e | Inr r \<Rightarrow> Inr (s @ r)))"

function substitute :: "string \<Rightarrow> (string \<rightharpoonup> string) \<Rightarrow> exn + string" where
  "substitute [] m = Inr []"
| "substitute (c # cs) m =
     (if c \<noteq> CHR ''$'' then cat (Inr [c]) (substitute cs m)
      else
        (case cs of
           [] \<Rightarrow> Inl ValueError
         | d # ds \<Rightarrow>
             if d = CHR ''$'' then cat (Inr ''$'') (substitute ds m)
             else if d = CHR ''{'' then
               (case dropWhile is_id_char ds of
                  [] \<Rightarrow> Inl ValueError
                | r # rest \<Rightarrow>
                    if is_identifier (takeWhile is_id_char ds) \<and> r = CHR ''}''
                    then cat (lookup m (takeWhile is_id_char ds)) (substitute rest m)
                    else Inl ValueError)
             else if is_identifier (takeWhile is_id_char cs)
               then cat (lookup m (takeWhile is_id_char cs))
                      (substitute (dropWhile is_id_char cs) m)
               else Inl ValueError))"
  by pat_completeness auto
termination
proof (relation "measure (\<lambda>(t, m). length t)")
  fix c :: char and cs ds rest :: string and d r :: char
  assume "cs = d # ds" and "dropWhile is_id_char ds = r # rest"
  then have "length (r # rest) \<le> length ds"
    by (metis length_dropWhile_le)
  with \<open>cs = d # ds\<close> show "((rest, m), c # cs, m) \<in> measure (\<lambda>(t, m). length t)" for m :: "string \<rightharpoonup> string"
    by simp
next
  fix c :: char and cs ds :: string and d :: char
  have "length (dropWhile is_id_char cs) \<le> length cs"
    by (rule length_dropWhile_le)
  then show "((dropWhile is_id_char cs, m), c # cs, m) \<in> measure (\<lambda>(t, m). length t)"
    for m :: "string \<rightharpoonup> string"
    by simp
qed auto

text \<open>
  \<open>s.strip()\<close>: the white space of Python among the code points below 256 is removed
  at both ends.
\<close>

definition is_space :: "char \<Rightarrow> bool" where
  "is_space c =
     (c \<in> set [CHR 0x09, CHR 0x0A, CHR 0x0B, CHR 0x0C, CHR 0x0D, CHR 0x1C, CHR 0x1D,
                CHR 0x1E, CHR 0x1F, CHR 0x20, CHR 0x85, CHR 0xA0])"

definition strip :: "string \<Rightarrow> string" where
  "strip s = rev (dropWhile is_space (rev (dropWhile is_space s)))"

section \<open>Queries\<close>

text \<open>
  A \<open>_Query\<close> keeps a table name, a value map (a dictionary, in insertion order) and
  a condition tree; each may be \<open>None\<close>. The subclass decides how the statement is
  written.
\<close>

datatype query_kind = Insert | Select | Update | Delete

record query =
  kind :: query_kind
  table_name :: "string option"
  value_map :: "(string \<times> pyval) list option"
  where_map :: "where_node option"

definition get_columns_str :: "query \<Rightarrow> string" where
  "get_columns_str q =
     (case value_map q of Some vm \<Rightarrow> str_join '', '' (map fst vm) | None \<Rightarrow> ''*'')"

text \<open>\<open>"?" * n\<close> is a string of \<open>n\<close> question marks, which \<open>join\<close> reads item by item.\<close>

definition get_values_str :: "query \<Rightarrow> string" where
  "get_values_str q =
     (case value_map q of
        Some vm \<Rightarrow> str_join '', '' (map (\<lambda>c. [c]) (replicate (length vm) CHR ''?''))
      | None \<Rightarrow> [])"

definition get_where_conditions :: "query \<Rightarrow> exn + string" where
  "get_where_conditions q =
     (case where_map q of
        Some w \<Rightarrow> cat (Inr ''WHERE '') (where_str w)
      | None \<Rightarrow> Inr [])"

definition get_args :: "query \<Rightarrow> pyval list option" where
  "get_args q = (case value_map q of Some vm \<Rightarrow> Some (map snd vm) | None \<Rightarrow> None)"

text \<open>The table name as the template writes it: \<open>str(self._table_name)\<close>.\<close>

definition table_text :: "query \<Rightarrow> string" where
  "table_text q = (case table_name q of None \<Rightarrow> ''None'' | Some t \<Rightarrow> t)"

text \<open>
  \<open>_Update._get_changes_string\<close>. The loop \<open>for key, val in self._value_map\<close> runs
  over the keys of the dictionary and unpacks each key, a string, into two names:
  a key of two characters gives its two characters, any other key a \<open>ValueError\<close>.
\<close>

fun unpack_pair :: "string \<Rightarrow> exn + string \<times> string" where
  "unpack_pair [a, b] = Inr ([a], [b])"
| "unpack_pair s = Inl ValueError"

fun changes_loop :: "string list \<Rightarrow> string list \<Rightarrow> exn + string list" where
  "changes_loop [] changes = Inr changes"
| "changes_loop (k # ks) changes =
     (case unpack_pair k of
        Inl e \<Rightarrow> Inl e
      | Inr (key, val) \<Rightarrow> changes_loop ks (changes @ [key @ '' = '' @ val]))"

definition get_changes_string :: "query \<Rightarrow> exn + string" where
  "get_changes_string q =
     (case value_map q of
        None \<Rightarrow> Inr []
      | Some vm \<Rightarrow>
          (case changes_loop (map fst vm) [] of
             Inl e \<Rightarrow> Inl e
           | Inr changes \<Rightarrow> Inr (str_join '', '' changes)))"

text \<open>
  \<open>_get_query_str\<close> of the four subclasses. The entries of the dictionary given to
  \<open>substitute\<close> are evaluated in the order in which the source writes them.
\<close>

definition insert_query_str :: "query \<Rightarrow> exn + string" where
  "insert_query_str q =
     substitute ''INSERT INTO $table ($columns) VALUES ($values)''
       [''table'' \<mapsto> table_text q, ''columns'' \<mapsto> get_columns_str q,
        ''values'' \<mapsto> get_values_str q]"

definition select_query_str :: "query \<Rightarrow> exn + string" where
  "select_query_str q =
     (case (if where_map q \<noteq> None then get_where_conditions q else Inr []) of
        Inl e \<Rightarrow> Inl e
      | Inr w \<Rightarrow>
          map_sum id strip
            (substitute ''SELECT ${columns} FROM ${table} ${where}''
               [''columns'' \<mapsto> get_columns_str q, ''table'' \<mapsto> table_text q, ''where'' \<mapsto> w]))"

definition update_query_str :: "query \<Rightarrow> exn + string" where
  "update_query_str q =
     (case get_changes_string q of
        Inl e \<Rightarrow> Inl e
      | Inr changes \<Rightarrow>
          (case (if where_map q \<noteq> None then get_where_conditions q else Inr []) of
             Inl e \<Rightarrow> Inl e
           | Inr w \<Rightarrow>
               map_sum id strip
                 (substitute ''UPDATE ${table} SET ${changes} ${where}''
                    [''table'' \<mapsto> table_text q, ''changes'' \<mapsto> changes, ''where'' \<mapsto> w])))"

definition delete_query_str :: "query \<Rightarrow> exn + string" where
  "delete_query_str q =
     (if where_map q \<noteq> None then
        (case get_where_conditions q of
           Inl e \<Rightarrow> Inl e
         | Inr w \<Rightarrow>
             substitute ''DELETE FROM ${table} ${where}''
               [''table'' \<mapsto> table_text q, ''where'' \<mapsto> w])
      else Inr [])"

definition get_query_str :: "query \<Rightarrow> exn + string" where
  "get_query_str q =
     (case kind q of
        Insert \<Rightarrow> insert_query_str q
      | Select \<Rightarrow> select_query_str q
      | Update \<Rightarrow> update_query_str q
      | Delete \<Rightarrow> delete_query_str q)"

text \<open>
  \<open>_Query.build\<close> returns a dictionary: \<open>{"query": ..., "args": ...}\<close> or
  \<open>{"error": ...}\<close>.
\<close>

datatype build_result = BuildError string | BuildQuery string "pyval list option"

definition build :: "query \<Rightarrow> exn + build_result" where
  "build q =
     (if table_name q \<noteq> None then
        (case get_query_str q of
           Inl e \<Rightarrow> Inl e
         | Inr s \<Rightarrow> Inr (BuildQuery s (get_args q)))
      else Inr (BuildError ''No table name provided.''))"

section \<open>Models\<close>

text \<open>
  A \<open>_Model\<close> is a dictionary from field names to values. The methods change it in
  place; here they return the changed model, or the exception they raise.
\<close>

type_synonym model = "string \<rightharpoonup> pyval"

text \<open>\<open>d[k]\<close> for a dictionary \<open>d\<close>.\<close>

definition getitem :: "(string \<rightharpoonup> pyval) \<Rightarrow> string \<Rightarrow> exn + pyval" where
  "getitem d k = (case d k of None \<Rightarrow> Inl KeyError | Some v \<Rightarrow> Inr v)"

text \<open>\<open>_Model._set_if_tag_exists\<close>, with a dictionary for its source.\<close>

definition set_if_tag_exists ::
  "model \<Rightarrow> string \<Rightarrow> (string \<rightharpoonup> pyval) \<Rightarrow> string option \<Rightarrow> exn + model" where
  "set_if_tag_exists self field_name source source_field =
     (let sf = (case source_field of None \<Rightarrow> field_name | Some f \<Rightarrow> f) in
      case getitem source sf of
        Inl e \<Rightarrow> Inl e
      | Inr v \<Rightarrow>
          if v \<noteq> PNone then
            (case v of
               PList xs \<Rightarrow>
                 (case xs of
                    [] \<Rightarrow> Inl IndexError
                  | x # rest \<Rightarrow> Inr (self(field_name \<mapsto> x)))
             | _ \<Rightarrow> Inr (self(field_name \<mapsto> v)))
          else Inr self)"

text \<open>
  A \<open>sqlite3.Row\<close>: its columns in order, each with its name and value. \<open>row.keys()\<close>
  lists the names; \<open>row[k]\<close> is the value of the first column whose name is \<open>k\<close>,
  compared without regard to the case of ASCII letters, and an \<open>IndexError\<close> when
  there is none.
\<close>

type_synonym row = "(string \<times> pyval) list"

definition row_keys :: "row \<Rightarrow> string list" where
  "row_keys r = map fst r"

definition lower_char :: "char \<Rightarrow> char" where
  "lower_char c =
     (case map_of (zip ''ABCDEFGHIJKLMNOPQRSTUVWXYZ'' ''abcdefghijklmnopqrstuvwxyz'') c of
        None \<Rightarrow> c
      | Some l \<Rightarrow> l)"

fun row_get :: "row \<Rightarrow> string \<Rightarrow> exn + pyval" where
  "row_get [] k = Inl IndexError"
| "row_get ((c, v) # r) k =
     (if map lower_char c = map lower_char k then Inr v else row_get r k)"

text \<open>
  The key under which \<open>from_sqlite\<close> stores the field \<open>sql_key\<close>: its entry in the
  field mapping when there is a mapping and it has one, the name itself otherwise.
\<close>

definition model_key :: "(string \<rightharpoonup> string) option \<Rightarrow> string \<Rightarrow> string" where
  "model_key sqlite_field_mapping sql_key =
     (case sqlite_field_mapping of
        None \<Rightarrow> sql_key
      | Some fm \<Rightarrow> (case fm sql_key of None \<Rightarrow> sql_key | Some k \<Rightarrow> k))"

text \<open>\<open>_Model.from_sqlite\<close>: the loop over \<open>row.keys()\<close>, then the method.\<close>

fun from_sqlite_loop ::
  "model \<Rightarrow> row \<Rightarrow> (string \<rightharpoonup> string) option \<Rightarrow> string list \<Rightarrow> exn + model" where
  "from_sqlite_loop self r fm [] = Inr self"
| "from_sqlite_loop self r fm (sql_key # ks) =
     (case row_get r sql_key of
        Inl e \<Rightarrow> Inl e
      | Inr v \<Rightarrow> from_sqlite_loop (self(model_key fm sql_key \<mapsto> v)) r fm ks)"

definition from_sqlite :: "model \<Rightarrow> row \<Rightarrow> (string \<rightharpoonup> string) option \<Rightarrow> exn + model" where
  "from_sqlite self r fm = from_sqlite_loop self r fm (row_keys r)"

section \<open>Rendering the statements\<close>

lemmas template_simps = cat_def lookup_def is_identifier_def is_id_char_def is_id_start_def

lemma condition_str_unset:
  "condition_str None t v = [] \<and> condition_str column_name t PNone = []"
  by (cases column_name) (simp_all add: condition_str_def)


lemma where_str_AND: "where_str (ConditionGroup AND conditions items) = Inl AttributeError"
  by (simp add: join_conditions_def)

lemma where_str_OR:
  "where_str (ConditionGroup OR conditions items) =
     (if conditions = [] then Inr ''()'' else Inl TypeError)"
  by (cases conditions) (simp_all add: join_conditions_def)

lemma insert_query_str_eq:
  "insert_query_str q =
     Inr (''INSERT INTO '' @ table_text q @ '' ('' @ get_columns_str q @ '') VALUES ('' @
          get_values_str q @ '')'')"
  by (simp add: insert_query_str_def template_simps)

lemma select_query_str_no_where:
  "where_map q = None \<Longrightarrow>
   select_query_str q =
     Inr (strip (''SELECT '' @ get_columns_str q @ '' FROM '' @ table_text q @ '' ''))"
  by (simp add: select_query_str_def template_simps)


lemma delete_query_str_no_where: "where_map q = None \<Longrightarrow> delete_query_str q = Inr []"
  by (simp add: delete_query_str_def)

lemma delete_query_str_where:
  "where_map q = Some w \<Longrightarrow> where_str w = Inr r \<Longrightarrow>
   delete_query_str q = Inr (''DELETE FROM '' @ table_text q @ '' WHERE '' @ r)"
  by (simp add: delete_query_str_def get_where_conditions_def template_simps)



text \<open>
  A key that is not two characters long stops \<open>_get_changes_string\<close>, whatever the
  other keys and the changes collected so far are.
\<close>

lemma changes_loop_raises:
  "k \<in> set ks \<Longrightarrow> length k \<noteq> 2 \<Longrightarrow> changes_loop ks changes = Inl ValueError"
proof (induction ks arbitrary: changes)
  case Nil
  then show ?case by simp
next
  case (Cons a ks)
  show ?case
  proof (cases "unpack_pair a")
    case (Inl e)
    then have "e = ValueError"
      by (cases a rule: unpack_pair.cases) simp_all
    with Inl show ?thesis by simp
  next
    case (Inr p)
    then have "length a = 2"
      by (cases a rule: unpack_pair.cases) simp_all
    with Cons.prems have "k \<in> set ks" by auto
    from Cons.IH [OF this Cons.prems(2)] Inr show ?thesis
      by (cases p) simp
  qed
qed


section \<open>Filling a model\<close>

lemma set_if_tag_exists_cases:
  "set_if_tag_exists self field_name source source_field =
     (case source (case source_field of None \<Rightarrow> field_name | Some f \<Rightarrow> f) of
        None \<Rightarrow> Inl KeyError
      | Some PNone \<Rightarrow> Inr self
      | Some (PList []) \<Rightarrow> Inl IndexError
      | Some (PList (x # rest)) \<Rightarrow> Inr (self(field_name \<mapsto> x))
      | Some v \<Rightarrow> Inr (self(field_name \<mapsto> v)))"
  by (simp add: set_if_tag_exists_def getitem_def Let_def
      split: option.splits pyval.splits list.splits)

lemma row_get_keys: "k \<in> set (row_keys r) \<Longrightarrow> \<exists>v. row_get r k = Inr v"
proof (induction r)
  case Nil
  then show ?case by (simp add: row_keys_def)
next
  case (Cons cv r)
  obtain c v where cv: "cv = (c, v)" by (cases cv)
  show ?case
  proof (cases "map lower_char c = map lower_char k")
    case True
    with cv show ?thesis by simp
  next
    case False
    then have "c \<noteq> k" by auto
    with Cons.prems cv have "k \<in> set (row_keys r)" by (simp add: row_keys_def)
    with Cons.IH False cv show ?thesis by simp
  qed
qed

lemma from_sqlite_loop_returns:
  "set ks \<subseteq> set (row_keys r) \<Longrightarrow> \<exists>m. from_sqlite_loop self r fm ks = Inr m"
proof (induction ks arbitrary: self)
  case Nil
  then show ?case by simp
next
  case (Cons k ks)
  then obtain v where "row_get r k = Inr v"
    using row_get_keys by fastforce
  with Cons show ?case by simp
qed

lemma from_sqlite_loop_other:
  "from_sqlite_loop self r fm ks = Inr m \<Longrightarrow> key \<notin> model_key fm ` set ks \<Longrightarrow>
   m key = self key"
  by (induction ks arbitrary: self) (auto split: sum.splits)

lemma from_sqlite_loop_dom:
  "from_sqlite_loop self r fm ks = Inr m \<Longrightarrow> dom m = dom self \<union> model_key fm ` set ks"
  by (induction ks arbitrary: self) (auto split: sum.splits)

text \<open>
  A field whose key no other field of the loop shares keeps the value the row gave
  for it: later steps of the loop write other keys only.
\<close>

lemma from_sqlite_loop_value:
  "from_sqlite_loop self r fm ks = Inr m \<Longrightarrow> f \<in> set ks \<Longrightarrow>
   \<forall>g \<in> set ks. model_key fm g = model_key fm f \<longrightarrow> g = f \<Longrightarrow>
   getitem m (model_key fm f) = row_get r f"
proof (induction ks arbitrary: self)
  case Nil
  then show ?case by simp
next
  case (Cons k ks)
  from Cons.prems(1) obtain v where v: "row_get r k = Inr v"
    and loop: "from_sqlite_loop (self(model_key fm k \<mapsto> v)) r fm ks = Inr m"
    by (auto split: sum.splits)
  show ?case
  proof (cases "f \<in> set ks")
    case True
    with Cons.IH [OF loop] Cons.prems(3) show ?thesis by simp
  next
    case False
    with Cons.prems(2) have fk: "f = k" by simp
    have "model_key fm f \<notin> model_key fm ` set ks"
      using Cons.prems(3) False by auto
    from from_sqlite_loop_other [OF loop this] fk v show ?thesis
      by (simp add: getitem_def)
  qed
qed

text \<open>
  In general the value under a key is the one the row gave for the last field of the
  loop that has this key: each step that writes the key replaces what an earlier step
  wrote there.
\<close>

lemma from_sqlite_loop_last:
  "from_sqlite_loop self r fm ks = Inr m \<Longrightarrow> f \<in> set ks \<Longrightarrow>
   getitem m (model_key fm f) =
     row_get r (last (filter (\<lambda>g. model_key fm g = model_key fm f) ks))"
proof (induction ks arbitrary: self f)
  case Nil
  then show ?case by simp
next
  case (Cons k ks)
  let ?same = "\<lambda>g. model_key fm g = model_key fm f"
  from Cons.prems(1) obtain v where v: "row_get r k = Inr v"
    and loop: "from_sqlite_loop (self(model_key fm k \<mapsto> v)) r fm ks = Inr m"
    by (auto split: sum.splits)
  show ?case
  proof (cases "filter ?same ks = []")
    case True
    then have none: "model_key fm f \<notin> model_key fm ` set ks"
      by (auto simp: filter_empty_conv)
    then have "f \<notin> set ks" by auto
    with Cons.prems(2) have fk: "f = k" by simp
    from from_sqlite_loop_other [OF loop none] fk v True show ?thesis
      by (simp add: getitem_def)
  next
    case False
    then obtain g where g: "g \<in> set ks" and same: "model_key fm g = model_key fm f"
      by (auto simp: filter_empty_conv)
    from Cons.IH [OF loop g] same
    have "getitem m (model_key fm f) = row_get r (last (filter ?same ks))"
      by simp
    with False show ?thesis by simp
  qed
qed

section \<open>The claims about conditions\<close>

text \<open>
  C1. The claim: a condition with its column and its value set is written
  \<open>column symbol value\<close> with the literal symbol of its operator. The code writes the
  value of the enumeration member, and for \<open>EQUALS\<close>, the operator of every
  condition the constructor makes, that value is the tuple \<open>('=',)\<close>:
  \<open>_Condition("id", 5)\<close> is written \<open>id ('=',) 5\<close>, not \<open>id = 5\<close>.
\<close>

theorem condition_str_equals:
  "where_str (Condition (Some ''id'') EQUALS (PInt 5)) = Inr ''id ('=',) 5''"
  by (simp add: condition_str_def repr_str_def repr_char_def is_printable_def Let_def
      str_int_def str_nat.simps digit_char_def)

text \<open>
  C2. The claim: a group is written as its children's texts joined by the text of
  its operator, in parentheses. In the code the value of \<open>AND\<close>, the operator of every
  group as constructed, is a tuple, which has no \<open>join\<close>: writing the group of the two
  children \<open>a = 1\<close> and \<open>b = 2\<close> raises \<open>AttributeError\<close>, and so does writing the
  group with no children.
\<close>

theorem group_str_raises:
  "where_str (ConditionGroup AND []
     [Condition (Some ''a'') EQUALS (PInt 1), Condition (Some ''b'') EQUALS (PInt 2)]) =
     Inl AttributeError \<and>
   where_str (ConditionGroup AND [] []) = Inl AttributeError"
  by (simp add: join_conditions_def)

section \<open>The claims about the builders\<close>

text \<open>
  C3, as amended. A delete builder with a table name and no condition tree builds
  without an error: its statement is the empty string, its arguments are the values of
  the value map (\<open>None\<close> without a value map). With a condition tree whose text is
  \<open>r\<close> it builds \<open>DELETE FROM table WHERE r\<close>: the text of the condition is part of
  the statement, and its values are not among the arguments.
\<close>

theorem delete_build:
  "build \<lparr>kind = Delete, table_name = Some t, value_map = vm, where_map = None\<rparr> =
     Inr (BuildQuery [] (map_option (map snd) vm)) \<and>
   (where_str w = Inr r \<longrightarrow>
    build \<lparr>kind = Delete, table_name = Some t, value_map = vm, where_map = Some w\<rparr> =
      Inr (BuildQuery (''DELETE FROM '' @ t @ '' WHERE '' @ r) (map_option (map snd) vm)))"
  by (cases vm)
    (simp_all add: build_def get_query_str_def delete_query_str_no_where
      delete_query_str_where get_args_def table_text_def)

text \<open>
  The amended claim at a delete from \<open>tracks\<close> where \<open>id <= 5\<close>, an operator whose
  value is a string.
\<close>

theorem delete_build_witness:
  "where_str (Condition (Some ''id'') LESS_THAN_EQUALS (PInt 5)) = Inr ''id <= 5'' \<and>
   build \<lparr>kind = Delete, table_name = Some ''tracks'', value_map = None,
          where_map = Some (Condition (Some ''id'') LESS_THAN_EQUALS (PInt 5))\<rparr> =
     Inr (BuildQuery ''DELETE FROM tracks WHERE id <= 5'' None)"
proof -
  have h: "where_str (Condition (Some ''id'') LESS_THAN_EQUALS (PInt 5)) = Inr ''id <= 5''"
    by (simp add: condition_str_def str_int_def str_nat.simps digit_char_def)
  from delete_build [where t = "''tracks''" and vm = None and r = "''id <= 5''"
      and w = "Condition (Some ''id'') LESS_THAN_EQUALS (PInt 5)"] h
  show ?thesis by simp
qed

text \<open>
  The claim of C3 as it was stated fails: without a condition tree the builder on
  table \<open>t\<close> returns a query, not an error, and with the condition \<open>id\<close>, 5 neither
  the statement nor the arguments are those of the claim.
\<close>

theorem delete_build_counterexample:
  "build \<lparr>kind = Delete, table_name = Some ''t'', value_map = None, where_map = None\<rparr> =
     Inr (BuildQuery [] None) \<and>
   build \<lparr>kind = Delete, table_name = Some ''t'', value_map = None,
          where_map = Some (Condition (Some ''id'') EQUALS (PInt 5))\<rparr> =
     Inr (BuildQuery ''DELETE FROM t WHERE id ('=',) 5'' None)"
  by code_simp




text \<open>
  C5. The claim: the changes of an update pair each key of the value map with a
  placeholder, and the update of \<open>x\<close> to 9 on table \<open>t\<close> where \<open>id\<close> is 1 builds
  \<open>UPDATE t SET x = ? WHERE (id = ?)\<close> with the parameters 9 and 1. The code runs
  over the keys of the value map and unpacks each key into two names, so that on this
  builder \<open>build\<close> raises \<open>ValueError\<close>.
\<close>

theorem update_build_raises:
  "build \<lparr>kind = Update, table_name = Some ''t'', value_map = Some [(''x'', PInt 9)],
          where_map = Some (Condition (Some ''id'') EQUALS (PInt 1))\<rparr> = Inl ValueError"
  by (simp add: build_def get_query_str_def update_query_str_def get_changes_string_def)

text \<open>
  C6. The insert builder on table \<open>t\<close> with the value map \<open>a\<close>: 1, \<open>b\<close>: 2 builds
  \<open>INSERT INTO t (a, b) VALUES (?, ?)\<close> with the parameters 1 and 2; and on any table
  and value map the columns are the keys in the order of the value map, with one
  placeholder for each and the values in the same order as parameters.
\<close>

theorem insert_build:
  "build \<lparr>kind = Insert, table_name = Some ''t'',
          value_map = Some [(''a'', PInt 1), (''b'', PInt 2)], where_map = None\<rparr> =
     Inr (BuildQuery ''INSERT INTO t (a, b) VALUES (?, ?)'' (Some [PInt 1, PInt 2])) \<and>
   build \<lparr>kind = Insert, table_name = Some t, value_map = Some vm, where_map = w\<rparr> =
     Inr (BuildQuery
       (''INSERT INTO '' @ t @ '' ('' @ str_join '', '' (map fst vm) @ '') VALUES ('' @
        str_join '', '' (replicate (length vm) ''?'') @ '')'')
       (Some (map snd vm)))"
  by (simp add: build_def get_query_str_def insert_query_str_eq get_columns_str_def
      get_values_str_def get_args_def table_text_def)

text \<open>
  C7, as amended. The select builder on table \<open>t\<close> with no value map and no condition
  tree builds \<open>SELECT * FROM t\<close>, and its arguments are \<open>None\<close>.
\<close>

theorem select_build_all:
  "build \<lparr>kind = Select, table_name = Some ''t'', value_map = None, where_map = None\<rparr> =
     Inr (BuildQuery ''SELECT * FROM t'' None)"
  by (simp add: build_def get_query_str_def select_query_str_no_where get_columns_str_def
      get_args_def table_text_def strip_def is_space_def)

text \<open>
  The claim of C7 as it was stated fails: the arguments are not the empty sequence.
\<close>

theorem select_build_all_counterexample:
  "build \<lparr>kind = Select, table_name = Some ''t'', value_map = None, where_map = None\<rparr> \<noteq>
     Inr (BuildQuery ''SELECT * FROM t'' (Some []))"
  by code_simp

text \<open>
  C10. The arguments of a query that \<open>build\<close> returns are the values of the value
  map in its order, and \<open>None\<close> when there is no value map; they are the same
  whatever the condition tree is.
\<close>

theorem build_args:
  "build q = Inr (BuildQuery s a) \<Longrightarrow>
   a = (case value_map q of None \<Rightarrow> None | Some vm \<Rightarrow> Some (map snd vm)) \<and>
   (build (q\<lparr>where_map := w'\<rparr>) = Inr (BuildQuery s' a') \<longrightarrow> a' = a)"
  by (auto simp: build_def get_args_def split: if_splits sum.splits)

text \<open>
  C10 at a select of column \<open>a\<close> from \<open>t\<close> where \<open>id <= 5\<close>, and at the same select
  without its condition.
\<close>

theorem build_args_witness:
  "build \<lparr>kind = Select, table_name = Some ''t'', value_map = Some [(''a'', PInt 1)],
      where_map = Some (Condition (Some ''id'') LESS_THAN_EQUALS (PInt 5))\<rparr> =
     Inr (BuildQuery ''SELECT a FROM t WHERE id <= 5'' (Some [PInt 1])) \<and>
   build \<lparr>kind = Select, table_name = Some ''t'', value_map = Some [(''a'', PInt 1)],
      where_map = None\<rparr> = Inr (BuildQuery ''SELECT a FROM t'' (Some [PInt 1])) \<and>
   Some [PInt 1] =
     (case value_map \<lparr>kind = Select, table_name = Some ''t'',
        value_map = Some [(''a'', PInt 1)],
        where_map = Some (Condition (Some ''id'') LESS_THAN_EQUALS (PInt 5))\<rparr> of
        None \<Rightarrow> None
      | Some vm \<Rightarrow> Some (map snd vm))"
proof -
  let ?q = "\<lparr>kind = Select, table_name = Some ''t'', value_map = Some [(''a'', PInt 1)],
    where_map = Some (Condition (Some ''id'') LESS_THAN_EQUALS (PInt 5))\<rparr>"
  have h: "build ?q = Inr (BuildQuery ''SELECT a FROM t WHERE id <= 5'' (Some [PInt 1]))"
    by code_simp
  have h': "build (?q\<lparr>where_map := None\<rparr>) =
      Inr (BuildQuery ''SELECT a FROM t'' (Some [PInt 1]))"
    by code_simp
  from build_args [OF h, of None "''SELECT a FROM t''" "Some [PInt 1]"] h h'
  show ?thesis by simp
qed

section \<open>The claims about models\<close>

text \<open>
  C8, as amended. \<open>from_sqlite\<close> returns for every model, row and field mapping.
  Afterwards the model has, for each field of the row, the key of that field: its
  entry in the field mapping when it has one, its own name otherwise; every other
  key is as it was before. For a field whose key no other field name of the row
  shares, the model holds under that key the value \<open>row[field]\<close>, unchanged. In
  general the model holds under the key of a field the value \<open>row[g]\<close> of the last
  field \<open>g\<close> of the row that has this key: where two fields have one key, the later
  one overwrites the earlier.
\<close>

theorem from_sqlite_fields:
  "\<exists>m. from_sqlite self r fm = Inr m \<and>
     (\<forall>f \<in> set (row_keys r).
        model_key fm f \<in> dom m \<and>
        ((\<forall>g \<in> set (row_keys r). model_key fm g = model_key fm f \<longrightarrow> g = f) \<longrightarrow>
           getitem m (model_key fm f) = row_get r f) \<and>
        getitem m (model_key fm f) =
          row_get r (last (filter (\<lambda>g. model_key fm g = model_key fm f) (row_keys r)))) \<and>
     (\<forall>k. k \<notin> model_key fm ` set (row_keys r) \<longrightarrow> m k = self k)"
proof -
  obtain m where m: "from_sqlite_loop self r fm (row_keys r) = Inr m"
    using from_sqlite_loop_returns [of "row_keys r" r self fm] by auto
  have keys: "model_key fm f \<in> dom m" if "f \<in> set (row_keys r)" for f
    using from_sqlite_loop_dom [OF m] that by blast
  have vals: "getitem m (model_key fm f) = row_get r f"
    if "f \<in> set (row_keys r)"
      and "\<forall>g \<in> set (row_keys r). model_key fm g = model_key fm f \<longrightarrow> g = f" for f
    using from_sqlite_loop_value [OF m that] .
  have lasts: "getitem m (model_key fm f) =
      row_get r (last (filter (\<lambda>g. model_key fm g = model_key fm f) (row_keys r)))"
    if "f \<in> set (row_keys r)" for f
    using from_sqlite_loop_last [OF m that] .
  have rest: "m k = self k" if "k \<notin> model_key fm ` set (row_keys r)" for k
    using from_sqlite_loop_other [OF m that] .
  have fields: "\<forall>f \<in> set (row_keys r).
      model_key fm f \<in> dom m \<and>
      ((\<forall>g \<in> set (row_keys r). model_key fm g = model_key fm f \<longrightarrow> g = f) \<longrightarrow>
         getitem m (model_key fm f) = row_get r f) \<and>
      getitem m (model_key fm f) =
        row_get r (last (filter (\<lambda>g. model_key fm g = model_key fm f) (row_keys r)))"
    using keys vals lasts by blast
  from rest have others: "\<forall>k. k \<notin> model_key fm ` set (row_keys r) \<longrightarrow> m k = self k"
    by blast
  from m have "from_sqlite self r fm = Inr m"
    by (simp add: from_sqlite_def)
  with fields others show ?thesis by blast
qed

text \<open>
  The amended claim at the row \<open>id\<close>: 7, \<open>title\<close>: \<open>x\<close> with \<open>title\<close> mapped to
  \<open>name\<close>, where no two fields have one key: the model holds \<open>x\<close> under \<open>name\<close>.
  And at the row \<open>title\<close>: \<open>x\<close>, \<open>name\<close>: \<open>y\<close> with the same mapping, where
  both fields have the key \<open>name\<close>: the model holds \<open>y\<close>, the value of the later
  field, under \<open>name\<close>.
\<close>

theorem from_sqlite_fields_witness:
  "''title'' \<in> set (row_keys [(''id'', PInt 7), (''title'', PStr ''x'')]) \<and>
   model_key (Some [''title'' \<mapsto> ''name'']) ''id'' \<noteq>
     model_key (Some [''title'' \<mapsto> ''name'']) ''title'' \<and>
   (\<exists>m. from_sqlite Map.empty [(''id'', PInt 7), (''title'', PStr ''x'')]
          (Some [''title'' \<mapsto> ''name'']) = Inr m \<and>
        ''name'' \<in> dom m \<and> getitem m ''name'' = Inr (PStr ''x'')) \<and>
   ''title'' \<in> set (row_keys [(''title'', PStr ''x''), (''name'', PStr ''y'')]) \<and>
   model_key (Some [''title'' \<mapsto> ''name'']) ''name'' =
     model_key (Some [''title'' \<mapsto> ''name'']) ''title'' \<and>
   (\<exists>m. from_sqlite Map.empty [(''title'', PStr ''x''), (''name'', PStr ''y'')]
          (Some [''title'' \<mapsto> ''name'']) = Inr m \<and>
        getitem m ''name'' = Inr (PStr ''y''))"
proof -
  let ?r = "[(''id'', PInt 7), (''title'', PStr ''x'')]"
  let ?c = "[(''title'', PStr ''x''), (''name'', PStr ''y'')]"
  let ?fm = "Some [''title'' \<mapsto> ''name'']"
  have f: "''title'' \<in> set (row_keys ?r)" and fc: "''title'' \<in> set (row_keys ?c)"
    by (simp_all add: row_keys_def)
  have key: "model_key ?fm ''title'' = ''name''" and other: "model_key ?fm ''id'' = ''id''"
    and same: "model_key ?fm ''name'' = ''name''"
    by (simp_all add: model_key_def)
  have single:
    "\<forall>g \<in> set (row_keys ?r). model_key ?fm g = model_key ?fm ''title'' \<longrightarrow> g = ''title''"
    by (simp add: row_keys_def model_key_def)
  have val: "row_get ?r ''title'' = Inr (PStr ''x'')"
    by (simp add: lower_char_def)
  have later:
    "last (filter (\<lambda>g. model_key ?fm g = model_key ?fm ''title'') (row_keys ?c)) = ''name''"
    by (simp add: row_keys_def model_key_def)
  have valc: "row_get ?c ''name'' = Inr (PStr ''y'')"
    by (simp add: lower_char_def)
  from from_sqlite_fields [of Map.empty ?r ?fm] obtain m
    where m: "from_sqlite Map.empty ?r ?fm = Inr m"
      and all: "\<forall>f \<in> set (row_keys ?r).
        model_key ?fm f \<in> dom m \<and>
        ((\<forall>g \<in> set (row_keys ?r). model_key ?fm g = model_key ?fm f \<longrightarrow> g = f) \<longrightarrow>
           getitem m (model_key ?fm f) = row_get ?r f) \<and>
        getitem m (model_key ?fm f) =
          row_get ?r (last (filter (\<lambda>g. model_key ?fm g = model_key ?fm f) (row_keys ?r)))"
    by blast
  from all f single have "model_key ?fm ''title'' \<in> dom m"
    and "getitem m (model_key ?fm ''title'') = row_get ?r ''title''"
    by blast+
  with key val have "''name'' \<in> dom m" and "getitem m ''name'' = Inr (PStr ''x'')"
    by simp_all
  with m have first: "\<exists>m. from_sqlite Map.empty ?r ?fm = Inr m \<and>
      ''name'' \<in> dom m \<and> getitem m ''name'' = Inr (PStr ''x'')"
    by blast
  from from_sqlite_fields [of Map.empty ?c ?fm] obtain n
    where n: "from_sqlite Map.empty ?c ?fm = Inr n"
      and alln: "\<forall>f \<in> set (row_keys ?c).
        model_key ?fm f \<in> dom n \<and>
        ((\<forall>g \<in> set (row_keys ?c). model_key ?fm g = model_key ?fm f \<longrightarrow> g = f) \<longrightarrow>
           getitem n (model_key ?fm f) = row_get ?c f) \<and>
        getitem n (model_key ?fm f) =
          row_get ?c (last (filter (\<lambda>g. model_key ?fm g = model_key ?fm f) (row_keys ?c)))"
    by blast
  from alln fc have "getitem n (model_key ?fm ''title'') =
      row_get ?c (last (filter (\<lambda>g. model_key ?fm g = model_key ?fm ''title'') (row_keys ?c)))"
    by blast
  with later key valc have "getitem n ''name'' = Inr (PStr ''y'')"
    by simp
  with n have second: "\<exists>m. from_sqlite Map.empty ?c ?fm = Inr m \<and>
      getitem m ''name'' = Inr (PStr ''y'')"
    by blast
  from f fc key other same first second show ?thesis by simp
qed

text \<open>
  The claim of C8 as it was stated fails where two fields get one key: in the row
  \<open>a\<close>: 1, \<open>b\<close>: 2 with \<open>a\<close> mapped to \<open>b\<close>, the model holds 2 under \<open>b\<close> and the
  value 1 of the mapped field \<open>a\<close> nowhere.
\<close>

theorem from_sqlite_fields_counterexample:
  "from_sqlite Map.empty [(''a'', PInt 1), (''b'', PInt 2)] (Some [''a'' \<mapsto> ''b'']) =
     Inr [''b'' \<mapsto> PInt 2]"
  by (simp add: from_sqlite_def row_keys_def model_key_def lower_char_def)

text \<open>
  C9. The claim: the helper copies a value that is present and not \<open>None\<close>, and
  leaves the model as it is otherwise. The code reads \<open>source[source_field]\<close> before
  any test, so that on a source without the field the call raises \<open>KeyError\<close>
  instead of returning with the model unchanged.
\<close>

theorem set_if_tag_exists_missing:
  "set_if_tag_exists Map.empty ''name'' Map.empty (Some ''TITLE'') = Inl KeyError"
  by (simp add: set_if_tag_exists_def getitem_def)

end
